theory Spec2Isabelle
  imports Main "HOL-Library.Word"
begin

section \<open>Error handling: exceptions and the exception boundary\<close>

text \<open>
  \<^verbatim>\<open>HRESULT\<close> is a 32-bit status. Internal code reports every error by throwing; the
  methods of the WinRT surface run their body inside \<^verbatim>\<open>ExceptionBoundary\<close>, which turns
  whatever was thrown into a status.
\<close>

type_synonym HRESULT = "32 word"
type_synonym unsigned = "32 word"

text \<open>
  Modelled from the spec: the status constants (success, OutOfBounds, NotImplemented,
  InvalidArgument, OutOfMemory, Unexpected) are declared in the Windows SDK header
  winerror.h, which is not part of the repository. They carry the values of that header.
\<close>

definition S_OK :: HRESULT where "S_OK = 0"
definition E_NOTIMPL :: HRESULT where "E_NOTIMPL = 0x80004001"
definition E_BOUNDS :: HRESULT where "E_BOUNDS = 0x8000000B"
definition E_INVALIDARG :: HRESULT where "E_INVALIDARG = 0x80070057"
definition E_OUTOFMEMORY :: HRESULT where "E_OUTOFMEMORY = 0x8007000E"
definition E_UNEXPECTED :: HRESULT where "E_UNEXPECTED = 0x8000FFFF"

text \<open>The SDK macro \<^verbatim>\<open>FAILED(hr)\<close>: the status read as a signed number is negative.\<close>

definition FAILED :: "HRESULT \<Rightarrow> bool" where
  "FAILED hr = (sint hr < 0)"

text \<open>
  What a body can throw: an \<^verbatim>\<open>HResultException\<close> carrying a status, \<^verbatim>\<open>std::bad_alloc\<close>,
  or anything else (the \<^verbatim>\<open>catch (...)\<close> clause).
\<close>

datatype exn = HResultException HRESULT | bad_alloc | other_exception

text \<open>
  A pure helper that may throw returns \<open>exn + 'a\<close> (\<open>Inl\<close> is the throw). A helper that
  only checks returns \<open>exn option\<close> (\<open>Some\<close> is the throw).
\<close>

definition ThrowHR :: "HRESULT \<Rightarrow> exn" where
  "ThrowHR hr = HResultException hr"

definition ThrowIfFailed :: "HRESULT \<Rightarrow> exn option" where
  "ThrowIfFailed hr = (if FAILED hr then Some (ThrowHR hr) else None)"

text \<open>
  A pointer argument is an \<open>option\<close>: \<open>None\<close> is the null pointer, \<open>Some x\<close> points to a
  location that holds \<open>x\<close>. A method returns the final content of each location it was
  given, so what the caller reads after the call is part of the result.
\<close>

definition ThrowIfNullPointer :: "'a option \<Rightarrow> HRESULT \<Rightarrow> exn option" where
  "ThrowIfNullPointer ptr hrToThrow = (if ptr = None then Some (ThrowHR hrToThrow) else None)"

definition CheckInPointer :: "'a option \<Rightarrow> exn option" where
  "CheckInPointer ptr = ThrowIfNullPointer ptr E_INVALIDARG"

text \<open>
  \<^verbatim>\<open>CheckAndClearOutPointer(T** ptr)\<close>: the thrown exception, if any, and the location
  after the call (the pointee of an out pointer is itself a pointer, \<open>None\<close> when null).
\<close>

definition CheckAndClearOutPointer :: "'a option option \<Rightarrow> exn option \<times> 'a option option" where
  "CheckAndClearOutPointer ptr =
     (case CheckInPointer ptr of
        Some e \<Rightarrow> (Some e, ptr)
      | None \<Rightarrow> (None, Some None))"

definition CheckMakeResult :: "bool \<Rightarrow> exn option" where
  "CheckMakeResult result = (if \<not> result then Some bad_alloc else None)"

definition ThrownExceptionToHResult :: "exn \<Rightarrow> HRESULT" where
  "ThrownExceptionToHResult e =
     (case e of
        HResultException hr \<Rightarrow> hr
      | bad_alloc \<Rightarrow> E_OUTOFMEMORY
      | other_exception \<Rightarrow> E_UNEXPECTED)"

text \<open>
  The callable of \<^verbatim>\<open>ExceptionBoundary\<close> captures by reference, so what it wrote before
  throwing stays written. Running it gives the exception it threw, if any, and the final
  state \<open>r\<close> of everything it captured.
\<close>

definition ExceptionBoundary :: "exn option \<times> 'r \<Rightarrow> HRESULT \<times> 'r" where
  "ExceptionBoundary fn =
     (case fn of
        (None, r) \<Rightarrow> (S_OK, r)
      | (Some e, r) \<Rightarrow> (ThrownExceptionToHResult e, r))"

section \<open>Element traits\<close>

text \<open>
  \<^verbatim>\<open>ElementTraits<T>\<close> is selected per element type: \<open>'t\<close> is the type at the boundary,
  \<open>'e\<close> the stored \<^verbatim>\<open>ElementType\<close>. The vector is written against the three operations
  only, so the traits are a parameter of the model. \<^verbatim>\<open>Unwrap\<close> and \<^verbatim>\<open>Equals\<close> can
  throw: the specialisation for reference counted pointers throws when \<^verbatim>\<open>CopyTo\<close> fails,
  the one for strings when \<^verbatim>\<open>WindowsCompareStringOrdinal\<close> fails (both belong to the
  platform). An \<^verbatim>\<open>Unwrap\<close> that throws is taken to have written nothing. Running out of
  memory inside \<^verbatim>\<open>std::vector\<close> is not modelled.
\<close>

record ('t, 'e) ElementTraits =
  Wrap :: "'t \<Rightarrow> 'e"
  Unwrap :: "'e \<Rightarrow> exn + 't"
  Equals :: "'e \<Rightarrow> 't \<Rightarrow> exn + bool"

text \<open>The default implementation, for value types.\<close>

definition ElementTraits_value :: "('t, 't) ElementTraits" where
  "ElementTraits_value =
     \<lparr> Wrap = (\<lambda>value. value),
       Unwrap = (\<lambda>value. Inr value),
       Equals = (\<lambda>value1 value2. Inr (value1 = value2)) \<rparr>"

section \<open>Vector traits\<close>

text \<open>
  \<^verbatim>\<open>DefaultVectorTraits\<close> stores the elements in a \<^verbatim>\<open>std::vector\<close>, here a list. An index
  is an \<^verbatim>\<open>unsigned\<close>; \<^verbatim>\<open>vector.size()\<close> is a \<^verbatim>\<open>size_t\<close>, so an index is compared with the
  length itself, while \<^verbatim>\<open>GetSize\<close> casts the length to \<^verbatim>\<open>unsigned\<close>.
\<close>

definition Traits_GetSize :: "'e list \<Rightarrow> unsigned" where
  "Traits_GetSize vector = of_nat (length vector)"

definition Traits_GetAt :: "'e list \<Rightarrow> unsigned \<Rightarrow> exn + 'e" where
  "Traits_GetAt vector index =
     (if unat index \<ge> length vector then Inl (ThrowHR E_BOUNDS)
      else Inr (vector ! unat index))"

definition Traits_SetAt ::
    "('t, 'e) ElementTraits \<Rightarrow> 'e list \<Rightarrow> unsigned \<Rightarrow> 't \<Rightarrow> exn + 'e list" where
  "Traits_SetAt tr vector index item =
     (if unat index \<ge> length vector then Inl (ThrowHR E_BOUNDS)
      else Inr (vector[unat index := Wrap tr item]))"

definition Traits_InsertAt ::
    "('t, 'e) ElementTraits \<Rightarrow> 'e list \<Rightarrow> unsigned \<Rightarrow> 't \<Rightarrow> exn + 'e list" where
  "Traits_InsertAt tr vector index item =
     (if unat index > length vector then Inl (ThrowHR E_BOUNDS)
      else Inr (take (unat index) vector @ Wrap tr item # drop (unat index) vector))"

definition Traits_RemoveAt :: "'e list \<Rightarrow> unsigned \<Rightarrow> exn + 'e list" where
  "Traits_RemoveAt vector index =
     (if unat index \<ge> length vector then Inl (ThrowHR E_BOUNDS)
      else Inr (take (unat index) vector @ drop (Suc (unat index)) vector))"

definition Traits_Append :: "('t, 'e) ElementTraits \<Rightarrow> 'e list \<Rightarrow> 't \<Rightarrow> 'e list" where
  "Traits_Append tr vector item = vector @ [Wrap tr item]"

definition Traits_Clear :: "'e list \<Rightarrow> 'e list" where
  "Traits_Clear vector = []"

section \<open>Vector\<close>

record 'e Vector =
  mVector :: "'e list"
  isFixedSize :: bool
  isChanged :: bool

text \<open>The two constructors: empty, and with a given content.\<close>

definition Vector_empty :: "'e Vector" where
  "Vector_empty = \<lparr> mVector = [], isFixedSize = False, isChanged = False \<rparr>"

definition Vector_new :: "bool \<Rightarrow> 'e list \<Rightarrow> 'e Vector" where
  "Vector_new fixedSize args = \<lparr> mVector = args, isFixedSize = fixedSize, isChanged = False \<rparr>"

definition IsFixedSize :: "'e Vector \<Rightarrow> bool" where
  "IsFixedSize v = isFixedSize v"

definition IsChanged :: "'e Vector \<Rightarrow> bool" where
  "IsChanged v = isChanged v"

definition SetChanged :: "'e Vector \<Rightarrow> bool \<Rightarrow> 'e Vector" where
  "SetChanged v changed = v\<lparr>isChanged := changed\<rparr>"

definition InternalVector :: "'e Vector \<Rightarrow> 'e list" where
  "InternalVector v = mVector v"

definition Vector_get_Size :: "'e Vector \<Rightarrow> unsigned option \<Rightarrow> HRESULT \<times> unsigned option" where
  "Vector_get_Size v size' =
     ExceptionBoundary
       (case CheckInPointer size' of
          Some e \<Rightarrow> (Some e, size')
        | None \<Rightarrow> (None, Some (Traits_GetSize (mVector v))))"

text \<open>\<^verbatim>\<open>ZeroMemory(item, sizeof(*item))\<close> leaves the zero of the element type in \<open>item\<close>.\<close>

definition Vector_GetAt ::
    "('t::zero, 'e) ElementTraits \<Rightarrow> 'e Vector \<Rightarrow> unsigned \<Rightarrow> 't option \<Rightarrow> HRESULT \<times> 't option" where
  "Vector_GetAt tr v index item =
     ExceptionBoundary
       (case CheckInPointer item of
          Some e \<Rightarrow> (Some e, item)
        | None \<Rightarrow>
            (let item0 = Some 0 in
             case Traits_GetAt (mVector v) index of
               Inl e \<Rightarrow> (Some e, item0)
             | Inr element \<Rightarrow>
                 (case Unwrap tr element of
                    Inl e \<Rightarrow> (Some e, item0)
                  | Inr result \<Rightarrow> (None, Some result))))"

text \<open>
  The scan of \<^verbatim>\<open>IndexOf\<close>: \<open>i\<close> is the loop counter, \<open>index\<close> and \<open>found\<close> the content of
  the two output locations.
\<close>

function IndexOf_loop ::
    "('t, 'e) ElementTraits \<Rightarrow> 'e list \<Rightarrow> 't \<Rightarrow> unsigned \<Rightarrow> unsigned \<Rightarrow> unsigned \<times> bool
       \<Rightarrow> exn option \<times> unsigned \<times> bool" where
  "IndexOf_loop tr vector value i size' out =
     (if i < size' then
        (case Traits_GetAt vector i of
           Inl e \<Rightarrow> (Some e, out)
         | Inr element \<Rightarrow>
             (case Equals tr element value of
                Inl e \<Rightarrow> (Some e, out)
              | Inr True \<Rightarrow> (None, i, True)
              | Inr False \<Rightarrow> IndexOf_loop tr vector value (i + 1) size' out))
      else (None, out))"
  by pat_completeness auto
termination
  apply (relation "measure (\<lambda>(tr, vector, value, i, size', out). unat size' - unat i)")
   apply simp
  apply simp
  apply unat_arith
  done

declare IndexOf_loop.simps [simp del]

definition Vector_IndexOf ::
    "('t, 'e) ElementTraits \<Rightarrow> 'e Vector \<Rightarrow> 't \<Rightarrow> unsigned option \<Rightarrow> bool option
       \<Rightarrow> HRESULT \<times> unsigned option \<times> bool option" where
  "Vector_IndexOf tr v value index found =
     ExceptionBoundary
       (case CheckInPointer index of
          Some e \<Rightarrow> (Some e, index, found)
        | None \<Rightarrow>
            (case CheckInPointer found of
               Some e \<Rightarrow> (Some e, index, found)
             | None \<Rightarrow>
                 (let size' = Traits_GetSize (mVector v) in
                  case IndexOf_loop tr (mVector v) value 0 size' (0, False) of
                    (thrown, index', found') \<Rightarrow> (thrown, Some index', Some found'))))"

definition Vector_SetAt ::
    "('t, 'e) ElementTraits \<Rightarrow> 'e Vector \<Rightarrow> unsigned \<Rightarrow> 't \<Rightarrow> HRESULT \<times> 'e Vector" where
  "Vector_SetAt tr v index item =
     ExceptionBoundary
       (case Traits_SetAt tr (mVector v) index item of
          Inl e \<Rightarrow> (Some e, v)
        | Inr vector \<Rightarrow> (None, v\<lparr>mVector := vector, isChanged := True\<rparr>))"

definition Vector_InsertAt ::
    "('t, 'e) ElementTraits \<Rightarrow> 'e Vector \<Rightarrow> unsigned \<Rightarrow> 't \<Rightarrow> HRESULT \<times> 'e Vector" where
  "Vector_InsertAt tr v index item =
     ExceptionBoundary
       (if isFixedSize v then (Some (ThrowHR E_NOTIMPL), v)
        else
          (case Traits_InsertAt tr (mVector v) index item of
             Inl e \<Rightarrow> (Some e, v)
           | Inr vector \<Rightarrow> (None, v\<lparr>mVector := vector, isChanged := True\<rparr>)))"

definition Vector_RemoveAt :: "'e Vector \<Rightarrow> unsigned \<Rightarrow> HRESULT \<times> 'e Vector" where
  "Vector_RemoveAt v index =
     ExceptionBoundary
       (if isFixedSize v then (Some (ThrowHR E_NOTIMPL), v)
        else
          (case Traits_RemoveAt (mVector v) index of
             Inl e \<Rightarrow> (Some e, v)
           | Inr vector \<Rightarrow> (None, v\<lparr>mVector := vector, isChanged := True\<rparr>)))"

definition Vector_Append ::
    "('t, 'e) ElementTraits \<Rightarrow> 'e Vector \<Rightarrow> 't \<Rightarrow> HRESULT \<times> 'e Vector" where
  "Vector_Append tr v item =
     ExceptionBoundary
       (if isFixedSize v then (Some (ThrowHR E_NOTIMPL), v)
        else (None, v\<lparr>mVector := Traits_Append tr (mVector v) item, isChanged := True\<rparr>))"

text \<open>The index passed on is \<^verbatim>\<open>GetSize(mVector) - 1\<close>, computed on \<^verbatim>\<open>unsigned\<close>.\<close>

definition Vector_RemoveAtEnd :: "'e Vector \<Rightarrow> HRESULT \<times> 'e Vector" where
  "Vector_RemoveAtEnd v =
     ExceptionBoundary
       (if isFixedSize v then (Some (ThrowHR E_NOTIMPL), v)
        else
          (case Traits_RemoveAt (mVector v) (Traits_GetSize (mVector v) - 1) of
             Inl e \<Rightarrow> (Some e, v)
           | Inr vector \<Rightarrow> (None, v\<lparr>mVector := vector, isChanged := True\<rparr>)))"

definition Vector_Clear :: "'e Vector \<Rightarrow> HRESULT \<times> 'e Vector" where
  "Vector_Clear v =
     ExceptionBoundary
       (if isFixedSize v then (Some (ThrowHR E_NOTIMPL), v)
        else (None, v\<lparr>mVector := Traits_Clear (mVector v), isChanged := True\<rparr>))"

text \<open>
  The two loops of \<^verbatim>\<open>ReplaceAll\<close>. \<open>value\<close> is the caller's array, read at \<open>i\<close> for
  every \<open>i < count\<close>; the caller owes \<open>count\<close> readable elements (\<^verbatim>\<open>_In_reads_(count)\<close>).
  The first loop returns the vector as it is when \<^verbatim>\<open>SetAt\<close> throws.
\<close>

function ReplaceAll_SetAt_loop ::
    "('t, 'e) ElementTraits \<Rightarrow> 'e list \<Rightarrow> unsigned \<Rightarrow> unsigned \<Rightarrow> 't list
       \<Rightarrow> exn option \<times> 'e list" where
  "ReplaceAll_SetAt_loop tr vector i count value =
     (if i < count then
        (case Traits_SetAt tr vector i (value ! unat i) of
           Inl e \<Rightarrow> (Some e, vector)
         | Inr vector' \<Rightarrow> ReplaceAll_SetAt_loop tr vector' (i + 1) count value)
      else (None, vector))"
  by pat_completeness auto
termination
  apply (relation "measure (\<lambda>(tr, vector, i, count, value). unat count - unat i)")
   apply simp
  apply simp
  apply unat_arith
  done

declare ReplaceAll_SetAt_loop.simps [simp del]

function ReplaceAll_Append_loop ::
    "('t, 'e) ElementTraits \<Rightarrow> 'e list \<Rightarrow> unsigned \<Rightarrow> unsigned \<Rightarrow> 't list \<Rightarrow> 'e list" where
  "ReplaceAll_Append_loop tr vector i count value =
     (if i < count then
        ReplaceAll_Append_loop tr (Traits_Append tr vector (value ! unat i)) (i + 1) count value
      else vector)"
  by pat_completeness auto
termination
  apply (relation "measure (\<lambda>(tr, vector, i, count, value). unat count - unat i)")
   apply simp
  apply simp
  apply unat_arith
  done

declare ReplaceAll_Append_loop.simps [simp del]

definition Vector_ReplaceAll ::
    "('t, 'e) ElementTraits \<Rightarrow> 'e Vector \<Rightarrow> unsigned \<Rightarrow> 't list option
       \<Rightarrow> HRESULT \<times> 'e Vector" where
  "Vector_ReplaceAll tr v count value =
     ExceptionBoundary
       (case CheckInPointer value of
          Some e \<Rightarrow> (Some e, v)
        | None \<Rightarrow>
            (if count = Traits_GetSize (mVector v) then
               (case ReplaceAll_SetAt_loop tr (mVector v) 0 count (the value) of
                  (Some e, vector) \<Rightarrow> (Some e, v\<lparr>mVector := vector\<rparr>)
                | (None, vector) \<Rightarrow> (None, v\<lparr>mVector := vector, isChanged := True\<rparr>))
             else if isFixedSize v then (Some (ThrowHR E_NOTIMPL), v)
             else
               (None, v\<lparr>mVector := ReplaceAll_Append_loop tr (Traits_Clear (mVector v)) 0 count
                                      (the value),
                         isChanged := True\<rparr>)))"

section \<open>Views and iterators\<close>

text \<open>
  A view and an iterator hold a counted reference to the vector they were made from, not
  a copy. Their methods therefore take the vector as it is at the time of the call. The
  view has no field of its own; the iterator has its position.
\<close>

datatype VectorView = VectorView

record VectorIterator =
  mPosition :: unsigned

definition VectorIterator_new :: VectorIterator where
  "VectorIterator_new = \<lparr> mPosition = 0 \<rparr>"

text \<open>
  \<^verbatim>\<open>Make\<close> belongs to WRL and returns an empty pointer when the allocation fails:
  \<open>allocated\<close> says whether it succeeds.
\<close>

definition Vector_GetView ::
    "'e Vector \<Rightarrow> bool \<Rightarrow> VectorView option option \<Rightarrow> HRESULT \<times> VectorView option option" where
  "Vector_GetView v allocated view =
     ExceptionBoundary
       (case CheckAndClearOutPointer view of
          (Some e, view') \<Rightarrow> (Some e, view')
        | (None, view') \<Rightarrow>
            (let vectorView = (if allocated then Some VectorView else None) in
             case CheckMakeResult (vectorView \<noteq> None) of
               Some e \<Rightarrow> (Some e, view')
             | None \<Rightarrow> (None, Some vectorView)))"

definition Vector_First ::
    "'e Vector \<Rightarrow> bool \<Rightarrow> VectorIterator option option
       \<Rightarrow> HRESULT \<times> VectorIterator option option" where
  "Vector_First v allocated first =
     ExceptionBoundary
       (case CheckAndClearOutPointer first of
          (Some e, first') \<Rightarrow> (Some e, first')
        | (None, first') \<Rightarrow>
            (let iterator = (if allocated then Some VectorIterator_new else None) in
             case CheckMakeResult (iterator \<noteq> None) of
               Some e \<Rightarrow> (Some e, first')
             | None \<Rightarrow> (None, Some iterator)))"

definition VectorView_get_Size :: "'e Vector \<Rightarrow> unsigned option \<Rightarrow> HRESULT \<times> unsigned option" where
  "VectorView_get_Size v size' = Vector_get_Size v size'"

definition VectorView_GetAt ::
    "('t::zero, 'e) ElementTraits \<Rightarrow> 'e Vector \<Rightarrow> unsigned \<Rightarrow> 't option \<Rightarrow> HRESULT \<times> 't option" where
  "VectorView_GetAt tr v index item = Vector_GetAt tr v index item"

definition VectorView_IndexOf ::
    "('t, 'e) ElementTraits \<Rightarrow> 'e Vector \<Rightarrow> 't \<Rightarrow> unsigned option \<Rightarrow> bool option
       \<Rightarrow> HRESULT \<times> unsigned option \<times> bool option" where
  "VectorView_IndexOf tr v value index found = Vector_IndexOf tr v value index found"

definition VectorView_First ::
    "'e Vector \<Rightarrow> bool \<Rightarrow> VectorIterator option option
       \<Rightarrow> HRESULT \<times> VectorIterator option option" where
  "VectorView_First v allocated first = Vector_First v allocated first"

definition VectorIterator_get_Current ::
    "('t::zero, 'e) ElementTraits \<Rightarrow> 'e Vector \<Rightarrow> VectorIterator \<Rightarrow> 't option
       \<Rightarrow> HRESULT \<times> 't option" where
  "VectorIterator_get_Current tr v it current = Vector_GetAt tr v (mPosition it) current"

definition VectorIterator_get_HasCurrent ::
    "'e Vector \<Rightarrow> VectorIterator \<Rightarrow> bool option \<Rightarrow> HRESULT \<times> bool option" where
  "VectorIterator_get_HasCurrent v it hasCurrent =
     ExceptionBoundary
       (case CheckInPointer hasCurrent of
          Some e \<Rightarrow> (Some e, hasCurrent)
        | None \<Rightarrow> (None, Some (mPosition it < Traits_GetSize (InternalVector v))))"

definition VectorIterator_MoveNext ::
    "'e Vector \<Rightarrow> VectorIterator \<Rightarrow> bool option \<Rightarrow> HRESULT \<times> VectorIterator \<times> bool option" where
  "VectorIterator_MoveNext v it hasCurrent =
     ExceptionBoundary
       (case CheckInPointer hasCurrent of
          Some e \<Rightarrow> (Some e, it, hasCurrent)
        | None \<Rightarrow>
            (let size' = Traits_GetSize (InternalVector v) in
             if mPosition it \<ge> size' then (Some (ThrowHR E_BOUNDS), it, hasCurrent)
             else
               (let it' = it\<lparr>mPosition := mPosition it + 1\<rparr> in
                (None, it', Some (mPosition it' < size')))))"

section \<open>Calls through the interfaces\<close>

text \<open>
  A caller holds the vector and invokes its methods one after another. These are the methods
  that return a new state of the vector; every other method of \<^verbatim>\<open>Vector\<close> and
  \<^verbatim>\<open>VectorView\<close> returns only a status and output values, so it leaves the vector as
  it is. \<open>Vector_calls\<close> is the vector after a sequence of calls, whatever their status.
\<close>

datatype 't Vector_method =
    Call_SetAt unsigned 't
  | Call_InsertAt unsigned 't
  | Call_RemoveAt unsigned
  | Call_Append 't
  | Call_RemoveAtEnd
  | Call_Clear
  | Call_ReplaceAll unsigned "'t list option"

fun Vector_call ::
    "('t, 'e) ElementTraits \<Rightarrow> 'e Vector \<Rightarrow> 't Vector_method \<Rightarrow> HRESULT \<times> 'e Vector" where
  "Vector_call tr v (Call_SetAt index item) = Vector_SetAt tr v index item"
| "Vector_call tr v (Call_InsertAt index item) = Vector_InsertAt tr v index item"
| "Vector_call tr v (Call_RemoveAt index) = Vector_RemoveAt v index"
| "Vector_call tr v (Call_Append item) = Vector_Append tr v item"
| "Vector_call tr v Call_RemoveAtEnd = Vector_RemoveAtEnd v"
| "Vector_call tr v Call_Clear = Vector_Clear v"
| "Vector_call tr v (Call_ReplaceAll count value) = Vector_ReplaceAll tr v count value"

fun Vector_calls ::
    "('t, 'e) ElementTraits \<Rightarrow> 'e Vector \<Rightarrow> 't Vector_method list \<Rightarrow> 'e Vector" where
  "Vector_calls tr v [] = v"
| "Vector_calls tr v (c # cs) = Vector_calls tr (snd (Vector_call tr v c)) cs"

text \<open>
  A caller that also holds an iterator over the vector. \<^verbatim>\<open>MoveNext\<close> is the only method
  of the iterator that changes it.
\<close>

datatype 't client_method = On_Vector "'t Vector_method" | On_Iterator_MoveNext "bool option"

fun client_call ::
    "('t, 'e) ElementTraits \<Rightarrow> 'e Vector \<times> VectorIterator \<Rightarrow> 't client_method
       \<Rightarrow> 'e Vector \<times> VectorIterator" where
  "client_call tr (v, it) (On_Vector c) = (snd (Vector_call tr v c), it)"
| "client_call tr (v, it) (On_Iterator_MoveNext hasCurrent) =
     (v, fst (snd (VectorIterator_MoveNext v it hasCurrent)))"

fun client_calls ::
    "('t, 'e) ElementTraits \<Rightarrow> 'e Vector \<times> VectorIterator \<Rightarrow> 't client_method list
       \<Rightarrow> 'e Vector \<times> VectorIterator" where
  "client_calls tr s [] = s"
| "client_calls tr s (c # cs) = client_calls tr (client_call tr s c) cs"

section \<open>Auxiliary facts\<close>

lemmas hr_defs =
  S_OK_def E_NOTIMPL_def E_BOUNDS_def E_INVALIDARG_def E_OUTOFMEMORY_def E_UNEXPECTED_def

lemmas boundary_defs = ExceptionBoundary_def ThrownExceptionToHResult_def ThrowHR_def

lemmas pointer_defs = CheckInPointer_def ThrowIfNullPointer_def

lemma unat_minus_1_u32: "unat (- 1 :: 32 word) = 4294967295"
proof -
  have "(- 1 :: 32 word) = 4294967295" by simp
  then show ?thesis by (simp only: unat_numeral) simp
qed

lemma unat_inc_less: "i < (n :: 32 word) \<Longrightarrow> unat (i + 1) = Suc (unat i)"
  by unat_arith

lemma unat_GetSize_le: "unat (Traits_GetSize xs) \<le> length xs"
  by (simp add: Traits_GetSize_def unat_of_nat)

lemma unat_GetSize_small: "length xs < 2 ^ 32 \<Longrightarrow> unat (Traits_GetSize xs) = length xs"
  by (simp add: Traits_GetSize_def unat_of_nat)

subsection \<open>The scan of IndexOf\<close>

lemma IndexOf_loop_absent:
  "\<forall>j < unat size'. j < length xs \<and> Equals tr (xs ! j) x = Inr False \<Longrightarrow>
   IndexOf_loop tr xs x i size' out = (None, out)"
proof (induction tr xs x i size' out rule: IndexOf_loop.induct)
  case (1 tr xs x i size' out)
  show ?case
  proof (cases "i < size'")
    case False
    then show ?thesis by (subst IndexOf_loop.simps) simp
  next
    case True
    then have lt: "unat i < unat size'" by (simp add: word_less_nat_alt)
    with "1.prems" have inb: "unat i < length xs"
      and eq: "Equals tr (xs ! unat i) x = Inr False" by auto
    from inb have get: "Traits_GetAt xs i = Inr (xs ! unat i)"
      by (simp add: Traits_GetAt_def)
    have "IndexOf_loop tr xs x (i + 1) size' out = (None, out)"
      using "1.IH" [OF True get eq] "1.prems" by simp
    then show ?thesis
      using True get eq by (subst IndexOf_loop.simps) simp
  qed
qed

lemma IndexOf_loop_found:
  "k < length xs \<Longrightarrow> k < unat size' \<Longrightarrow> Equals tr (xs ! k) x = Inr True \<Longrightarrow>
   \<forall>j < k. Equals tr (xs ! j) x = Inr False \<Longrightarrow> unat i \<le> k \<Longrightarrow>
   IndexOf_loop tr xs x i size' out = (None, of_nat k, True)"
proof (induction tr xs x i size' out rule: IndexOf_loop.induct)
  case (1 tr xs x i size' out)
  from "1.prems" have "unat i < unat size'" by simp
  then have run: "i < size'" by (simp add: word_less_nat_alt)
  from "1.prems" have inb: "unat i < length xs" by simp
  then have get: "Traits_GetAt xs i = Inr (xs ! unat i)"
    by (simp add: Traits_GetAt_def)
  show ?case
  proof (cases "unat i = k")
    case True
    then have "of_nat k = i" by auto
    with "1.prems" run get True show ?thesis
      by (subst IndexOf_loop.simps) simp
  next
    case False
    with "1.prems" have less: "unat i < k" by simp
    with "1.prems" have eq: "Equals tr (xs ! unat i) x = Inr False" by simp
    have "unat (i + 1) \<le> k"
      using less unat_inc_less [OF run] by simp
    then have "IndexOf_loop tr xs x (i + 1) size' out = (None, of_nat k, True)"
      using "1.IH" [OF run get eq] "1.prems" by simp
    then show ?thesis
      using run get eq by (subst IndexOf_loop.simps) simp
  qed
qed

subsection \<open>The loops of ReplaceAll\<close>

lemma ReplaceAll_Append_loop_eq:
  "ReplaceAll_Append_loop tr xs i count vals =
     xs @ map (\<lambda>k. Wrap tr (vals ! k)) [unat i..<unat count]"
proof (induction tr xs i count vals rule: ReplaceAll_Append_loop.induct)
  case (1 tr xs i count vals)
  show ?case
  proof (cases "i < count")
    case False
    then have "unat count \<le> unat i" by (simp add: word_less_nat_alt)
    with False show ?thesis by (subst ReplaceAll_Append_loop.simps) simp
  next
    case True
    then have lt: "unat i < unat count" by (simp add: word_less_nat_alt)
    have "ReplaceAll_Append_loop tr xs i count vals =
        (xs @ [Wrap tr (vals ! unat i)]) @ map (\<lambda>k. Wrap tr (vals ! k)) [unat (i + 1)..<unat count]"
      using True "1.IH" [OF True] by (subst ReplaceAll_Append_loop.simps) (simp add: Traits_Append_def)
    then show ?thesis
      using lt by (simp add: unat_inc_less [OF True] upt_conv_Cons)
  qed
qed

lemma ReplaceAll_SetAt_loop_length:
  "length (snd (ReplaceAll_SetAt_loop tr xs i count vals)) = length xs"
proof (induction tr xs i count vals rule: ReplaceAll_SetAt_loop.induct)
  case (1 tr xs i count vals)
  show ?case
  proof (cases "i < count \<and> unat i < length xs")
    case False
    then show ?thesis
      by (subst ReplaceAll_SetAt_loop.simps) (auto simp add: Traits_SetAt_def)
  next
    case True
    then have set: "Traits_SetAt tr xs i (vals ! unat i) = Inr (xs[unat i := Wrap tr (vals ! unat i)])"
      by (simp add: Traits_SetAt_def)
    from True "1.IH" [OF _ set] set show ?thesis
      by (subst ReplaceAll_SetAt_loop.simps) simp
  qed
qed

lemma ReplaceAll_SetAt_loop_eq:
  "unat count \<le> length xs \<Longrightarrow>
   ReplaceAll_SetAt_loop tr xs i count vals =
     (None, map (\<lambda>k. if unat i \<le> k \<and> k < unat count then Wrap tr (vals ! k) else xs ! k)
              [0..<length xs])"
proof (induction tr xs i count vals rule: ReplaceAll_SetAt_loop.induct)
  case (1 tr xs i count vals)
  show ?case
  proof (cases "i < count")
    case False
    then have "unat count \<le> unat i" by (simp add: word_less_nat_alt)
    then have "map (\<lambda>k. if unat i \<le> k \<and> k < unat count then Wrap tr (vals ! k) else xs ! k)
              [0..<length xs] = xs"
      by (intro nth_equalityI) auto
    with False show ?thesis by (subst ReplaceAll_SetAt_loop.simps) simp
  next
    case True
    then have lt: "unat i < unat count" by (simp add: word_less_nat_alt)
    with "1.prems" have inb: "unat i < length xs" by simp
    let ?xs' = "xs[unat i := Wrap tr (vals ! unat i)]"
    have set: "Traits_SetAt tr xs i (vals ! unat i) = Inr ?xs'"
      using inb by (simp add: Traits_SetAt_def)
    have "ReplaceAll_SetAt_loop tr ?xs' (i + 1) count vals =
       (None, map (\<lambda>k. if unat (i + 1) \<le> k \<and> k < unat count then Wrap tr (vals ! k) else ?xs' ! k)
              [0..<length ?xs'])"
      using "1.IH" [OF True set] "1.prems" by simp
    also have "map (\<lambda>k. if unat (i + 1) \<le> k \<and> k < unat count then Wrap tr (vals ! k) else ?xs' ! k)
              [0..<length ?xs'] =
       map (\<lambda>k. if unat i \<le> k \<and> k < unat count then Wrap tr (vals ! k) else xs ! k)
              [0..<length xs]"
      using lt inb by (intro nth_equalityI) (auto simp add: unat_inc_less [OF True] nth_list_update)
    finally show ?thesis
      using True set by (subst ReplaceAll_SetAt_loop.simps) simp
  qed
qed


subsection \<open>Sequences of calls\<close>

lemma Vector_call_fixed:
  "isFixedSize v \<Longrightarrow>
   length (mVector (snd (Vector_call tr v c))) = length (mVector v) \<and>
   isFixedSize (snd (Vector_call tr v c))"
proof (cases c)
  case (Call_ReplaceAll count array)
  assume fixed: "isFixedSize v"
  with ReplaceAll_SetAt_loop_length [of tr "mVector v" 0 count "the array"] show ?thesis
    by (auto simp add: Call_ReplaceAll Vector_ReplaceAll_def pointer_defs boundary_defs
        split: prod.splits option.splits)
qed (simp_all add: Vector_SetAt_def Vector_InsertAt_def Vector_RemoveAt_def Vector_Append_def
      Vector_RemoveAtEnd_def Vector_Clear_def Traits_SetAt_def boundary_defs)

lemma Vector_calls_fixed:
  "isFixedSize v \<Longrightarrow>
   length (mVector (Vector_calls tr v cs)) = length (mVector v) \<and>
   isFixedSize (Vector_calls tr v cs)"
proof (induction cs arbitrary: v)
  case Nil
  then show ?case by simp
next
  case (Cons c cs)
  from Vector_call_fixed [OF Cons.prems, of tr c]
  have len: "length (mVector (snd (Vector_call tr v c))) = length (mVector v)"
    and fixed: "isFixedSize (snd (Vector_call tr v c))" by simp_all
  from Cons.IH [OF fixed] len show ?case by simp
qed




subsection \<open>Output locations after a failed call\<close>

text \<open>
  With non-null output pointers, \<^verbatim>\<open>get_Size\<close> and \<^verbatim>\<open>get_HasCurrent\<close> cannot fail, and
  a failed \<^verbatim>\<open>GetAt\<close>, \<^verbatim>\<open>IndexOf\<close>, \<^verbatim>\<open>GetView\<close> or \<^verbatim>\<open>First\<close> leaves zero, false or
  the null pointer in its output locations.
\<close>

lemma IndexOf_loop_thrown:
  "IndexOf_loop tr xs x i size' out = (Some e, out') \<Longrightarrow> out' = out"
proof (induction tr xs x i size' out rule: IndexOf_loop.induct)
  case (1 tr xs x i size' out)
  from "1.prems" show ?case
    by (subst (asm) IndexOf_loop.simps)
      (auto split: if_splits sum.splits bool.splits dest: "1.IH")
qed

lemma outputs_cleared_on_failure:
  fixes tr :: "('t :: zero, 'e) ElementTraits" and v :: "'e Vector"
  shows
  "fst (Vector_get_Size v (Some size0)) = S_OK \<and>
   fst (VectorIterator_get_HasCurrent v it (Some hasCurrent0)) = S_OK \<and>
   (fst (Vector_GetAt tr v index (Some item0)) \<noteq> S_OK \<longrightarrow>
      snd (Vector_GetAt tr v index (Some item0)) = Some 0) \<and>
   (fst (Vector_IndexOf tr v x (Some index0) (Some found0)) \<noteq> S_OK \<longrightarrow>
      snd (Vector_IndexOf tr v x (Some index0) (Some found0)) = (Some 0, Some False)) \<and>
   (fst (Vector_GetView v allocated (Some view0)) \<noteq> S_OK \<longrightarrow>
      snd (Vector_GetView v allocated (Some view0)) = Some None) \<and>
   (fst (Vector_First v allocated (Some first0)) \<noteq> S_OK \<longrightarrow>
      snd (Vector_First v allocated (Some first0)) = Some None)"
proof -
  have "snd (Vector_IndexOf tr v x (Some index0) (Some found0)) = (Some 0, Some False)"
    if "fst (Vector_IndexOf tr v x (Some index0) (Some found0)) \<noteq> S_OK"
  proof -
    obtain thrown out where loop:
      "IndexOf_loop tr (mVector v) x 0 (Traits_GetSize (mVector v)) (0, False) = (thrown, out)"
      by (cases "IndexOf_loop tr (mVector v) x 0 (Traits_GetSize (mVector v)) (0, False)") auto
    with that obtain e where "thrown = Some e"
      by (cases thrown; cases out)
        (auto simp add: Vector_IndexOf_def pointer_defs ExceptionBoundary_def)
    with loop have "out = (0, False)" by (auto dest: IndexOf_loop_thrown)
    with loop show ?thesis
      by (simp add: Vector_IndexOf_def pointer_defs ExceptionBoundary_def split: option.splits)
  qed
  then show ?thesis
    by (auto simp add: Vector_get_Size_def VectorIterator_get_HasCurrent_def Vector_GetAt_def
        Vector_GetView_def Vector_First_def CheckAndClearOutPointer_def CheckMakeResult_def
        pointer_defs ExceptionBoundary_def Let_def split: sum.splits option.splits if_splits)
qed

subsection \<open>Status of the scan, of RemoveAtEnd and of ReplaceAll\<close>

lemma IndexOf_loop_throws_at:
  "k < length xs \<Longrightarrow> k < unat size' \<Longrightarrow> Equals tr (xs ! k) x = Inl e \<Longrightarrow>
   \<forall>j < k. Equals tr (xs ! j) x = Inr False \<Longrightarrow> unat i \<le> k \<Longrightarrow>
   IndexOf_loop tr xs x i size' out = (Some e, out)"
proof (induction tr xs x i size' out rule: IndexOf_loop.induct)
  case (1 tr xs x i size' out)
  from "1.prems" have "unat i < unat size'" by simp
  then have run: "i < size'" by (simp add: word_less_nat_alt)
  from "1.prems" have inb: "unat i < length xs" by simp
  then have get: "Traits_GetAt xs i = Inr (xs ! unat i)"
    by (simp add: Traits_GetAt_def)
  show ?case
  proof (cases "unat i = k")
    case True
    with "1.prems" run get show ?thesis
      by (subst IndexOf_loop.simps) simp
  next
    case False
    with "1.prems" have less: "unat i < k" by simp
    with "1.prems" have eq: "Equals tr (xs ! unat i) x = Inr False" by simp
    have "unat (i + 1) \<le> k"
      using less unat_inc_less [OF run] by simp
    then have "IndexOf_loop tr xs x (i + 1) size' out = (Some e, out)"
      using "1.IH" [OF run get eq] "1.prems" by simp
    then show ?thesis
      using run get eq by (subst IndexOf_loop.simps) simp
  qed
qed

lemma IndexOf_loop_completes:
  "\<forall>j < unat size'. j < length xs \<and> (\<exists>b. Equals tr (xs ! j) x = Inr b) \<Longrightarrow>
   fst (IndexOf_loop tr xs x i size' out) = None"
proof (induction tr xs x i size' out rule: IndexOf_loop.induct)
  case (1 tr xs x i size' out)
  show ?case
  proof (cases "i < size'")
    case False
    then show ?thesis by (subst IndexOf_loop.simps) simp
  next
    case True
    then have lt: "unat i < unat size'" by (simp add: word_less_nat_alt)
    with "1.prems" obtain b where inb: "unat i < length xs"
      and eq: "Equals tr (xs ! unat i) x = Inr b" by auto
    from inb have get: "Traits_GetAt xs i = Inr (xs ! unat i)"
      by (simp add: Traits_GetAt_def)
    show ?thesis
    proof (cases b)
      case True
      with \<open>i < size'\<close> get eq show ?thesis by (subst IndexOf_loop.simps) simp
    next
      case False
      with eq have eq': "Equals tr (xs ! unat i) x = Inr False" by simp
      have "fst (IndexOf_loop tr xs x (i + 1) size' out) = None"
        using "1.IH" [OF True get eq'] "1.prems" by simp
      then show ?thesis
        using True get eq' by (subst IndexOf_loop.simps) simp
    qed
  qed
qed

lemma RemoveAtEnd_index_in_range:
  "xs \<noteq> [] \<Longrightarrow> unat (Traits_GetSize xs - 1) < length xs"
proof (cases "Traits_GetSize xs = 0")
  case True
  assume "xs \<noteq> []"
  with True have "2 ^ 32 \<le> length xs"
    by (auto simp add: Traits_GetSize_def word_of_nat_eq_0_iff dest: dvd_imp_le)
  moreover have "unat (Traits_GetSize xs - 1) < 2 ^ 32"
    using unsigned_less [of "Traits_GetSize xs - 1", where 'a = nat] by simp
  ultimately show ?thesis by simp
next
  case False
  then have "unat (Traits_GetSize xs - 1) < unat (Traits_GetSize xs)"
    by (simp add: unat_minus_one unat_gt_0)
  then show ?thesis using unat_GetSize_le [of xs] by simp
qed

lemma ReplaceAll_status:
  "fst (Vector_ReplaceAll tr v count array) =
     (if array = None then E_INVALIDARG
      else if count \<noteq> Traits_GetSize (mVector v) \<and> isFixedSize v then E_NOTIMPL
      else S_OK)"
proof (cases "count = Traits_GetSize (mVector v)")
  case True
  then have "unat count \<le> length (mVector v)" by (simp add: unat_GetSize_le)
  from ReplaceAll_SetAt_loop_eq [OF this, of tr 0 "the array"] True show ?thesis
    by (simp add: Vector_ReplaceAll_def pointer_defs boundary_defs)
next
  case False
  then show ?thesis
    by (simp add: Vector_ReplaceAll_def pointer_defs boundary_defs)
qed

lemma IndexOf_status:
  fixes tr :: "('t, 'e) ElementTraits" and v :: "'e Vector"
  shows
  "(index = None \<or> found = None \<longrightarrow>
      fst (Vector_IndexOf tr v x index found) = E_INVALIDARG) \<and>
   (index \<noteq> None \<and> found \<noteq> None \<and> k < unat (Traits_GetSize (mVector v)) \<and>
    Equals tr (mVector v ! k) x = Inl e \<and>
    (\<forall>j < k. Equals tr (mVector v ! j) x = Inr False) \<longrightarrow>
      fst (Vector_IndexOf tr v x index found) = ThrownExceptionToHResult e) \<and>
   (index \<noteq> None \<and> found \<noteq> None \<and>
    (\<forall>j < length (mVector v). \<exists>b. Equals tr (mVector v ! j) x = Inr b) \<longrightarrow>
      fst (Vector_IndexOf tr v x index found) = S_OK)"
proof (intro conjI impI)
  assume "index = None \<or> found = None"
  then show "fst (Vector_IndexOf tr v x index found) = E_INVALIDARG"
    by (auto simp add: Vector_IndexOf_def pointer_defs boundary_defs)
next
  assume h: "index \<noteq> None \<and> found \<noteq> None \<and> k < unat (Traits_GetSize (mVector v)) \<and>
    Equals tr (mVector v ! k) x = Inl e \<and>
    (\<forall>j < k. Equals tr (mVector v ! j) x = Inr False)"
  then have "k < length (mVector v)"
    using unat_GetSize_le [of "mVector v"] by simp
  with h have "IndexOf_loop tr (mVector v) x 0 (Traits_GetSize (mVector v)) (0, False)
      = (Some e, 0, False)"
    by (intro IndexOf_loop_throws_at) auto
  with h show "fst (Vector_IndexOf tr v x index found) = ThrownExceptionToHResult e"
    by (auto simp add: Vector_IndexOf_def pointer_defs ExceptionBoundary_def)
next
  assume h: "index \<noteq> None \<and> found \<noteq> None \<and>
    (\<forall>j < length (mVector v). \<exists>b. Equals tr (mVector v ! j) x = Inr b)"
  then have "\<forall>j < unat (Traits_GetSize (mVector v)).
      j < length (mVector v) \<and> (\<exists>b. Equals tr (mVector v ! j) x = Inr b)"
    using unat_GetSize_le [of "mVector v"] by auto
  then have "fst (IndexOf_loop tr (mVector v) x 0 (Traits_GetSize (mVector v)) (0, False)) = None"
    by (rule IndexOf_loop_completes)
  with h show "fst (Vector_IndexOf tr v x index found) = S_OK"
    by (auto simp add: Vector_IndexOf_def pointer_defs ExceptionBoundary_def split: prod.splits)
qed

section \<open>Properties\<close>

text \<open>
  Claim C7. Every entry point is a total function that returns a status: no exception
  escapes. A body that completes gives \<open>S_OK\<close>; an \<^verbatim>\<open>HResultException\<close> gives the
  status it carries, unchanged; \<^verbatim>\<open>std::bad_alloc\<close> gives \<open>E_OUTOFMEMORY\<close>; any other
  exception gives \<open>E_UNEXPECTED\<close>. For each entry point of the vector, the view and the
  iterator, the status is given by the faults its body can raise: a null pointer argument
  (\<open>E_INVALIDARG\<close>), an index out of bounds (\<open>E_BOUNDS\<close>), a resizing call on a
  fixed-size vector (\<open>E_NOTIMPL\<close>), a failed allocation of the view or iterator
  (\<open>E_OUTOFMEMORY\<close>), and whatever \<^verbatim>\<open>Unwrap\<close> or \<^verbatim>\<open>Equals\<close> of the element traits
  throws, converted in the same way.
\<close>

theorem entry_points_convert_faults:
  fixes tr :: "('t :: zero, 'e) ElementTraits" and v :: "'e Vector"
  shows
  "ExceptionBoundary (None, r) = (S_OK, r) \<and>
   ExceptionBoundary (Some (ThrowHR hr), r) = (hr, r) \<and>
   ExceptionBoundary (Some bad_alloc, r) = (E_OUTOFMEMORY, r) \<and>
   ExceptionBoundary (Some other_exception, r) = (E_UNEXPECTED, r) \<and>
   ThrownExceptionToHResult (ThrowHR hr) = hr \<and>
   ThrownExceptionToHResult bad_alloc = E_OUTOFMEMORY \<and>
   ThrownExceptionToHResult other_exception = E_UNEXPECTED \<and>
   fst (Vector_get_Size v size') = (if size' = None then E_INVALIDARG else S_OK) \<and>
   fst (Vector_GetAt tr v index item) =
     (if item = None then E_INVALIDARG
      else if length (mVector v) \<le> unat index then E_BOUNDS
      else case Unwrap tr (mVector v ! unat index) of
             Inl e \<Rightarrow> ThrownExceptionToHResult e
           | Inr result \<Rightarrow> S_OK) \<and>
   (index' = None \<or> found = None \<longrightarrow>
      fst (Vector_IndexOf tr v x index' found) = E_INVALIDARG) \<and>
   (index' \<noteq> None \<and> found \<noteq> None \<and> k < unat (Traits_GetSize (mVector v)) \<and>
    Equals tr (mVector v ! k) x = Inl e \<and>
    (\<forall>j < k. Equals tr (mVector v ! j) x = Inr False) \<longrightarrow>
      fst (Vector_IndexOf tr v x index' found) = ThrownExceptionToHResult e) \<and>
   (index' \<noteq> None \<and> found \<noteq> None \<and>
    (\<forall>j < length (mVector v). \<exists>b. Equals tr (mVector v ! j) x = Inr b) \<longrightarrow>
      fst (Vector_IndexOf tr v x index' found) = S_OK) \<and>
   fst (Vector_SetAt tr v index x) =
     (if length (mVector v) \<le> unat index then E_BOUNDS else S_OK) \<and>
   fst (Vector_InsertAt tr v index x) =
     (if isFixedSize v then E_NOTIMPL
      else if length (mVector v) < unat index then E_BOUNDS else S_OK) \<and>
   fst (Vector_RemoveAt v index) =
     (if isFixedSize v then E_NOTIMPL
      else if length (mVector v) \<le> unat index then E_BOUNDS else S_OK) \<and>
   fst (Vector_Append tr v x) = (if isFixedSize v then E_NOTIMPL else S_OK) \<and>
   fst (Vector_RemoveAtEnd v) =
     (if isFixedSize v then E_NOTIMPL else if mVector v = [] then E_BOUNDS else S_OK) \<and>
   fst (Vector_Clear v) = (if isFixedSize v then E_NOTIMPL else S_OK) \<and>
   fst (Vector_ReplaceAll tr v count array) =
     (if array = None then E_INVALIDARG
      else if count \<noteq> Traits_GetSize (mVector v) \<and> isFixedSize v then E_NOTIMPL
      else S_OK) \<and>
   fst (Vector_GetView v allocated view) =
     (if view = None then E_INVALIDARG else if \<not> allocated then E_OUTOFMEMORY else S_OK) \<and>
   fst (Vector_First v allocated first) =
     (if first = None then E_INVALIDARG else if \<not> allocated then E_OUTOFMEMORY else S_OK) \<and>
   VectorView_get_Size v size' = Vector_get_Size v size' \<and>
   VectorView_GetAt tr v index item = Vector_GetAt tr v index item \<and>
   VectorView_IndexOf tr v x index' found = Vector_IndexOf tr v x index' found \<and>
   VectorView_First v allocated first = Vector_First v allocated first \<and>
   VectorIterator_get_Current tr v it item = Vector_GetAt tr v (mPosition it) item \<and>
   fst (VectorIterator_get_HasCurrent v it hasCurrent) =
     (if hasCurrent = None then E_INVALIDARG else S_OK) \<and>
   fst (VectorIterator_MoveNext v it hasCurrent) =
     (if hasCurrent = None then E_INVALIDARG
      else if Traits_GetSize (mVector v) \<le> mPosition it then E_BOUNDS else S_OK)"
proof -
  have boundary: "ExceptionBoundary (None, r) = (S_OK, r)"
    "ExceptionBoundary (Some (ThrowHR hr), r) = (hr, r)"
    "ExceptionBoundary (Some bad_alloc, r) = (E_OUTOFMEMORY, r)"
    "ExceptionBoundary (Some other_exception, r) = (E_UNEXPECTED, r)"
    "ThrownExceptionToHResult (ThrowHR hr) = hr"
    "ThrownExceptionToHResult bad_alloc = E_OUTOFMEMORY"
    "ThrownExceptionToHResult other_exception = E_UNEXPECTED"
    by (simp_all add: boundary_defs)
  have reads: "fst (Vector_get_Size v size') = (if size' = None then E_INVALIDARG else S_OK)"
    "fst (Vector_GetAt tr v index item) =
     (if item = None then E_INVALIDARG
      else if length (mVector v) \<le> unat index then E_BOUNDS
      else case Unwrap tr (mVector v ! unat index) of
             Inl e \<Rightarrow> ThrownExceptionToHResult e
           | Inr result \<Rightarrow> S_OK)"
    by (simp_all add: Vector_get_Size_def Vector_GetAt_def Traits_GetAt_def pointer_defs
        boundary_defs split: sum.splits)
  have writes: "fst (Vector_SetAt tr v index x) =
     (if length (mVector v) \<le> unat index then E_BOUNDS else S_OK)"
    "fst (Vector_InsertAt tr v index x) =
     (if isFixedSize v then E_NOTIMPL
      else if length (mVector v) < unat index then E_BOUNDS else S_OK)"
    "fst (Vector_RemoveAt v index) =
     (if isFixedSize v then E_NOTIMPL
      else if length (mVector v) \<le> unat index then E_BOUNDS else S_OK)"
    "fst (Vector_Append tr v x) = (if isFixedSize v then E_NOTIMPL else S_OK)"
    "fst (Vector_Clear v) = (if isFixedSize v then E_NOTIMPL else S_OK)"
    by (simp_all add: Vector_SetAt_def Vector_InsertAt_def Vector_RemoveAt_def
        Vector_Append_def Vector_Clear_def Traits_SetAt_def Traits_InsertAt_def
        Traits_RemoveAt_def boundary_defs)
  have last: "fst (Vector_RemoveAtEnd v) =
     (if isFixedSize v then E_NOTIMPL else if mVector v = [] then E_BOUNDS else S_OK)"
    using RemoveAtEnd_index_in_range [of "mVector v"]
    by (auto simp add: Vector_RemoveAtEnd_def Traits_RemoveAt_def boundary_defs
        Traits_GetSize_def)
  have makes: "fst (Vector_GetView v allocated view) =
     (if view = None then E_INVALIDARG else if \<not> allocated then E_OUTOFMEMORY else S_OK)"
    "fst (Vector_First v allocated first) =
     (if first = None then E_INVALIDARG else if \<not> allocated then E_OUTOFMEMORY else S_OK)"
    by (simp_all add: Vector_GetView_def Vector_First_def CheckAndClearOutPointer_def
        CheckMakeResult_def pointer_defs boundary_defs)
  have forwards: "VectorView_get_Size v size' = Vector_get_Size v size'"
    "VectorView_GetAt tr v index item = Vector_GetAt tr v index item"
    "VectorView_IndexOf tr v x index' found = Vector_IndexOf tr v x index' found"
    "VectorView_First v allocated first = Vector_First v allocated first"
    "VectorIterator_get_Current tr v it item = Vector_GetAt tr v (mPosition it) item"
    by (simp_all add: VectorView_get_Size_def VectorView_GetAt_def VectorView_IndexOf_def
        VectorView_First_def VectorIterator_get_Current_def)
  have iterator: "fst (VectorIterator_get_HasCurrent v it hasCurrent) =
     (if hasCurrent = None then E_INVALIDARG else S_OK)"
    "fst (VectorIterator_MoveNext v it hasCurrent) =
     (if hasCurrent = None then E_INVALIDARG
      else if Traits_GetSize (mVector v) \<le> mPosition it then E_BOUNDS else S_OK)"
    by (simp_all add: VectorIterator_get_HasCurrent_def VectorIterator_MoveNext_def
        InternalVector_def Let_def pointer_defs boundary_defs)
  note scan = IndexOf_status [of index' found tr v x k e]
  from scan have scan1: "index' = None \<or> found = None \<longrightarrow>
      fst (Vector_IndexOf tr v x index' found) = E_INVALIDARG"
    and scan2: "index' \<noteq> None \<and> found \<noteq> None \<and> k < unat (Traits_GetSize (mVector v)) \<and>
    Equals tr (mVector v ! k) x = Inl e \<and>
    (\<forall>j < k. Equals tr (mVector v ! j) x = Inr False) \<longrightarrow>
      fst (Vector_IndexOf tr v x index' found) = ThrownExceptionToHResult e"
    and scan3: "index' \<noteq> None \<and> found \<noteq> None \<and>
    (\<forall>j < length (mVector v). \<exists>b. Equals tr (mVector v ! j) x = Inr b) \<longrightarrow>
      fst (Vector_IndexOf tr v x index' found) = S_OK"
    by blast+
  show ?thesis
    by (intro conjI boundary reads writes last makes forwards iterator scan1 scan2 scan3
        ReplaceAll_status)
qed

theorem entry_points_convert_faults_witness:
  "fst (Vector_IndexOf
         \<lparr>Wrap = (\<lambda>a. a), Unwrap = Inr,
          Equals = (\<lambda>a b. if a = 6 then Inl other_exception else Inr (a = b))\<rparr>
         (Vector_new False [5 :: nat, 6, 7]) (7 :: nat) (Some 0) (Some False)) = E_UNEXPECTED \<and>
   fst (Vector_IndexOf
         \<lparr>Wrap = (\<lambda>a. a), Unwrap = Inr,
          Equals = (\<lambda>a b. if a = 6 then Inl other_exception else Inr (a = b))\<rparr>
         (Vector_new False [5 :: nat, 6, 7]) (7 :: nat) None (Some False)) = E_INVALIDARG \<and>
   fst (Vector_IndexOf ElementTraits_value (Vector_new False [5 :: nat, 6, 7]) 7 (Some 0)
         (Some False)) = S_OK \<and>
   fst (Vector_GetView (Vector_new False [5 :: nat, 6, 7]) False (Some None)) = E_OUTOFMEMORY \<and>
   fst (Vector_GetAt ElementTraits_value (Vector_new False [5 :: nat, 6, 7]) 3 (Some 1)) = E_BOUNDS"
proof -
  let ?tr = "\<lparr>Wrap = (\<lambda>a. a), Unwrap = Inr,
          Equals = (\<lambda>a b. if a = 6 then Inl other_exception else Inr (a = b))\<rparr>
          :: (nat, nat) ElementTraits"
  let ?v = "Vector_new False [5 :: nat, 6, 7]"
  note faulty = entry_points_convert_faults [where v = ?v and tr = ?tr and x = 7 and k = 1
      and e = other_exception and r = "()" and hr = 0 and size' = None and index = 3
      and item = "Some 1" and count = 0 and array = None and allocated = False
      and view = "Some None" and first = None and it = VectorIterator_new
      and hasCurrent = None]
  note plain = entry_points_convert_faults [where v = ?v and tr = ElementTraits_value and x = 7
      and k = 1 and e = other_exception and r = "()" and hr = 0 and size' = None and index = 3
      and item = "Some 1" and count = 0 and array = None and allocated = False
      and view = "Some None" and first = None and it = VectorIterator_new
      and hasCurrent = None and index' = "Some 0" and found = "Some False"]
  have small: "length (mVector ?v) = 3" "unat (Traits_GetSize (mVector ?v)) = 3"
    by (simp_all add: Vector_new_def Traits_GetSize_def)
  have "fst (Vector_IndexOf ?tr ?v 7 (Some 0) (Some False)) = E_UNEXPECTED"
    using faulty [where index' = "Some 0" and found = "Some False"]
    by (simp add: small) (simp add: Vector_new_def)
  moreover have "fst (Vector_IndexOf ?tr ?v 7 None (Some False)) = E_INVALIDARG"
    using faulty [where index' = None and found = "Some False"] by simp
  moreover have "fst (Vector_IndexOf ElementTraits_value ?v 7 (Some 0) (Some False)) = S_OK"
    using plain by (simp add: ElementTraits_value_def)
  moreover have "fst (Vector_GetView ?v False (Some None)) = E_OUTOFMEMORY"
    using plain by simp
  moreover have "fst (Vector_GetAt ElementTraits_value ?v 3 (Some 1)) = E_BOUNDS"
    using plain by (simp add: small)
  ultimately show ?thesis by simp
qed

text \<open>
  Claim C2. On a resizable vector with no element, \<^verbatim>\<open>RemoveAtEnd\<close> passes the index
  \<open>0 - 1\<close>, which wraps to \<open>2^32 - 1\<close>; the bounds check of \<^verbatim>\<open>RemoveAt\<close> rejects it and
  the method returns \<open>E_BOUNDS\<close>, leaving the vector as it was. On a fixed-size vector the
  method returns \<open>E_NOTIMPL\<close> whatever the content, since that check comes first.
\<close>

theorem RemoveAtEnd_empty:
  "(\<not> isFixedSize v \<longrightarrow> mVector v = [] \<longrightarrow>
      Traits_GetSize (mVector v) - 1 = 0xFFFFFFFF \<and>
      unat (Traits_GetSize (mVector v) - 1) = 2 ^ 32 - 1 \<and>
      Traits_RemoveAt (mVector v) (Traits_GetSize (mVector v) - 1) = Inl (ThrowHR E_BOUNDS) \<and>
      Vector_RemoveAtEnd v = (E_BOUNDS, v)) \<and>
   (isFixedSize v \<longrightarrow> Vector_RemoveAtEnd v = (E_NOTIMPL, v))"
  by (simp add: Vector_RemoveAtEnd_def Traits_GetSize_def Traits_RemoveAt_def
      boundary_defs unat_minus_1_u32)

theorem RemoveAtEnd_empty_witness:
  "Vector_RemoveAtEnd (Vector_new False ([] :: nat list)) = (E_BOUNDS, Vector_new False []) \<and>
   Vector_RemoveAtEnd (Vector_new True ([] :: nat list)) = (E_NOTIMPL, Vector_new True []) \<and>
   Vector_RemoveAtEnd (Vector_new True [1 :: nat, 2]) = (E_NOTIMPL, Vector_new True [1, 2])"
  using RemoveAtEnd_empty [of "Vector_new False ([] :: nat list)"]
    RemoveAtEnd_empty [of "Vector_new True ([] :: nat list)"]
    RemoveAtEnd_empty [of "Vector_new True [1 :: nat, 2]"]
  by (simp add: Vector_new_def)

text \<open>
  Claim C3. The claim says that a failed call never leaves an output location with what it
  held before the call. \<^verbatim>\<open>MoveNext\<close> on an iterator that is at the end returns \<open>E_BOUNDS\<close>
  and the location \<open>hasCurrent\<close> still holds the caller's old value; \<^verbatim>\<open>IndexOf\<close> with a
  null \<open>found\<close> returns \<open>E_INVALIDARG\<close> and the location \<open>index\<close> still holds the
  caller's old value.
\<close>

theorem MoveNext_stale_output:
  "VectorIterator_MoveNext (Vector_new False ([] :: nat list)) VectorIterator_new (Some True) =
     (E_BOUNDS, VectorIterator_new, Some True) \<and> FAILED E_BOUNDS \<and>
   Vector_IndexOf ElementTraits_value (Vector_new False [7 :: nat]) 7 (Some 42) None =
     (E_INVALIDARG, Some 42, None) \<and> FAILED E_INVALIDARG"
  by (simp add: VectorIterator_MoveNext_def Vector_IndexOf_def Vector_new_def
      VectorIterator_new_def InternalVector_def pointer_defs Let_def Traits_GetSize_def
      boundary_defs FAILED_def hr_defs)



text \<open>
  Claim C10. Each of \<^verbatim>\<open>SetAt\<close>, \<^verbatim>\<open>InsertAt\<close>, \<^verbatim>\<open>RemoveAt\<close>, \<^verbatim>\<open>Append\<close>,
  \<^verbatim>\<open>RemoveAtEnd\<close> and \<^verbatim>\<open>Clear\<close> either succeeds, and then the changed flag is set, or
  fails with \<open>E_NOTIMPL\<close> or \<open>E_BOUNDS\<close>, and then the whole vector (buffer, fixed-size
  flag and changed flag) is as it was before the call.
\<close>

theorem mutators_fail_atomically:
  fixes tr :: "('t, 'e) ElementTraits" and v :: "'e Vector"
  shows
  "\<forall>r \<in> {Vector_SetAt tr v index item, Vector_InsertAt tr v index item,
           Vector_RemoveAt v index, Vector_Append tr v item, Vector_RemoveAtEnd v,
           Vector_Clear v}.
      (fst r = S_OK \<longrightarrow> isChanged (snd r)) \<and>
      (fst r \<noteq> S_OK \<longrightarrow> (fst r = E_NOTIMPL \<or> fst r = E_BOUNDS) \<and> snd r = v)"
  by (simp add: Vector_SetAt_def Vector_InsertAt_def Vector_RemoveAt_def Vector_Append_def
      Vector_RemoveAtEnd_def Vector_Clear_def Traits_SetAt_def Traits_InsertAt_def
      Traits_RemoveAt_def boundary_defs hr_defs)

theorem mutators_fail_atomically_witness:
  "Vector_SetAt ElementTraits_value (Vector_new True [5 :: nat, 6]) 1 9 =
     (S_OK, \<lparr>mVector = [5, 9], isFixedSize = True, isChanged = True\<rparr>) \<and>
   Vector_SetAt ElementTraits_value (Vector_new True [5 :: nat, 6]) 2 9 =
     (E_BOUNDS, Vector_new True [5, 6]) \<and>
   Vector_Clear (Vector_new True [5 :: nat, 6]) = (E_NOTIMPL, Vector_new True [5, 6]) \<and>
   Vector_RemoveAt (Vector_new False [5 :: nat, 6]) 2 = (E_BOUNDS, Vector_new False [5, 6]) \<and>
   Vector_RemoveAt (Vector_new False [5 :: nat, 6]) 0 =
     (S_OK, \<lparr>mVector = [6], isFixedSize = False, isChanged = True\<rparr>)"
  using
    mutators_fail_atomically [of ElementTraits_value "Vector_new True [5 :: nat, 6]" 1 9]
    mutators_fail_atomically [of ElementTraits_value "Vector_new True [5 :: nat, 6]" 2 9]
    mutators_fail_atomically [of ElementTraits_value "Vector_new False [5 :: nat, 6]" 2 9]
    mutators_fail_atomically [of ElementTraits_value "Vector_new False [5 :: nat, 6]" 0 9]
  by (simp add: Vector_new_def Vector_SetAt_def Vector_Clear_def Vector_RemoveAt_def
      Traits_SetAt_def Traits_RemoveAt_def ElementTraits_value_def boundary_defs)

text \<open>
  Claim C6. On a resizable vector, \<^verbatim>\<open>InsertAt\<close> at the index equal to the number of
  elements returns exactly what \<^verbatim>\<open>Append\<close> returns: success and the buffer with the
  wrapped item added at the end. \<^verbatim>\<open>InsertAt\<close> returns \<open>E_BOUNDS\<close> exactly when the index
  is above the number of elements; \<^verbatim>\<open>RemoveAt\<close>, \<^verbatim>\<open>SetAt\<close> and \<^verbatim>\<open>GetAt\<close> return it
  exactly when the index is at or above it (for \<^verbatim>\<open>GetAt\<close>, with a conversion \<^verbatim>\<open>Unwrap\<close>
  that does not itself throw \<open>E_BOUNDS\<close>).
\<close>

theorem InsertAt_end_is_Append:
  fixes tr :: "('t :: zero, 'e) ElementTraits" and v :: "'e Vector"
  shows
  "(\<not> isFixedSize v \<longrightarrow> unat index = length (mVector v) \<longrightarrow>
      Vector_InsertAt tr v index item = Vector_Append tr v item \<and>
      Vector_InsertAt tr v index item =
        (S_OK, v\<lparr>mVector := mVector v @ [Wrap tr item], isChanged := True\<rparr>)) \<and>
   (\<not> isFixedSize v \<longrightarrow>
      (fst (Vector_InsertAt tr v index item) = E_BOUNDS) = (unat index > length (mVector v)) \<and>
      (fst (Vector_RemoveAt v index) = E_BOUNDS) = (unat index \<ge> length (mVector v))) \<and>
   (fst (Vector_SetAt tr v index item) = E_BOUNDS) = (unat index \<ge> length (mVector v)) \<and>
   ((\<forall>e. Unwrap tr e \<noteq> Inl (ThrowHR E_BOUNDS)) \<longrightarrow>
      (fst (Vector_GetAt tr v index (Some out)) = E_BOUNDS) = (unat index \<ge> length (mVector v)))"
  by (auto simp add: Vector_SetAt_def Vector_InsertAt_def Vector_RemoveAt_def Vector_Append_def
      Vector_GetAt_def Traits_GetAt_def Traits_Append_def pointer_defs
      Traits_SetAt_def Traits_InsertAt_def
      Traits_RemoveAt_def boundary_defs hr_defs split: sum.splits exn.splits)

theorem InsertAt_end_is_Append_witness:
  "Vector_InsertAt ElementTraits_value (Vector_new False [5 :: nat, 6]) 2 9 =
     Vector_Append ElementTraits_value (Vector_new False [5 :: nat, 6]) 9 \<and>
   Vector_InsertAt ElementTraits_value (Vector_new False [5 :: nat, 6]) 2 9 =
     (S_OK, \<lparr>mVector = [5, 6, 9], isFixedSize = False, isChanged = True\<rparr>) \<and>
   fst (Vector_InsertAt ElementTraits_value (Vector_new False [5 :: nat, 6]) 3 9) = E_BOUNDS \<and>
   fst (Vector_RemoveAt (Vector_new False [5 :: nat, 6]) 2) = E_BOUNDS \<and>
   fst (Vector_SetAt ElementTraits_value (Vector_new False [5 :: nat, 6]) 2 9) = E_BOUNDS \<and>
   fst (Vector_GetAt ElementTraits_value (Vector_new False [5 :: nat, 6]) 2 (Some 1)) = E_BOUNDS"
  using
    InsertAt_end_is_Append [of "Vector_new False [5 :: nat, 6]" 2 ElementTraits_value 9 1]
    InsertAt_end_is_Append [of "Vector_new False [5 :: nat, 6]" 3 ElementTraits_value 9 1]
  by (simp add: Vector_new_def ElementTraits_value_def Vector_Append_def Traits_Append_def
      boundary_defs)

text \<open>
  Claim C8. The claim says that \<^verbatim>\<open>IndexOf\<close> finds the first equal element of every
  collection. It does not hold for a vector of \<open>2^32\<close> elements: \<^verbatim>\<open>GetSize\<close> casts the
  number of elements to \<^verbatim>\<open>unsigned\<close>, which gives 0, so the scan does not start and
  \<^verbatim>\<open>IndexOf\<close> returns \<open>found = false\<close> although the element at index 0 is equal.
\<close>

theorem IndexOf_misses_match_beyond_unsigned:
  "Vector_IndexOf ElementTraits_value (Vector_new False (replicate (2 ^ 32) (7 :: nat))) 7
     (Some 5) (Some True) = (S_OK, Some 0, Some False) \<and>
   Equals ElementTraits_value (mVector (Vector_new False (replicate (2 ^ 32) (7 :: nat))) ! 0) 7
     = Inr True"
proof -
  have "Traits_GetSize (replicate (2 ^ 32) (7 :: nat)) = 0"
    by (simp add: Traits_GetSize_def)
  then show ?thesis
    by (simp add: Vector_IndexOf_def Vector_new_def pointer_defs ExceptionBoundary_def
        IndexOf_loop.simps [of _ _ _ 0 0] ElementTraits_value_def)
qed

text \<open>
  Claim C8, amended. \<^verbatim>\<open>IndexOf\<close> scans from index 0 with \<^verbatim>\<open>Equals\<close> over the first
  \<open>size\<close> elements, where \<open>size\<close> is what \<^verbatim>\<open>GetSize\<close> gives: the number of elements
  modulo \<open>2^32\<close>, which is the number of elements itself when there are fewer than
  \<open>2^32\<close>. If the element at \<open>k\<close> is the first one in that range that \<^verbatim>\<open>Equals\<close>
  accepts, it returns \<open>k\<close> and \<open>found = true\<close>. If \<^verbatim>\<open>Equals\<close> rejects every element
  in that range, in particular when there is none, it returns index 0 and \<open>found = false\<close>.
\<close>

theorem IndexOf_first_match_scanned:
  fixes tr :: "('t, 'e) ElementTraits" and v :: "'e Vector"
  shows
  "(k < unat (Traits_GetSize (mVector v)) \<and>
        Equals tr (mVector v ! k) x = Inr True \<and>
        (\<forall>j < k. Equals tr (mVector v ! j) x = Inr False) \<longrightarrow>
        Vector_IndexOf tr v x (Some index) (Some found) = (S_OK, Some (of_nat k), Some True) \<and>
        unat (of_nat k :: unsigned) = k \<and> k < length (mVector v)) \<and>
   ((\<forall>j < unat (Traits_GetSize (mVector v)). Equals tr (mVector v ! j) x = Inr False) \<longrightarrow>
        Vector_IndexOf tr v x (Some index) (Some found) = (S_OK, Some 0, Some False)) \<and>
   (mVector v = [] \<longrightarrow>
        Vector_IndexOf tr v x (Some index) (Some found) = (S_OK, Some 0, Some False)) \<and>
   (length (mVector v) < 2 ^ 32 \<longrightarrow> unat (Traits_GetSize (mVector v)) = length (mVector v)) \<and>
   unat (Traits_GetSize (mVector v)) = length (mVector v) mod 2 ^ 32"
proof (intro conjI impI)
  assume h: "k < unat (Traits_GetSize (mVector v)) \<and>
        Equals tr (mVector v ! k) x = Inr True \<and>
        (\<forall>j < k. Equals tr (mVector v ! j) x = Inr False)"
  then show inb: "k < length (mVector v)"
    using unat_GetSize_le [of "mVector v"] by simp
  with h have "IndexOf_loop tr (mVector v) x 0 (Traits_GetSize (mVector v)) (0, False)
      = (None, of_nat k, True)"
    by (intro IndexOf_loop_found) auto
  then show "Vector_IndexOf tr v x (Some index) (Some found) = (S_OK, Some (of_nat k), Some True)"
    by (simp add: Vector_IndexOf_def pointer_defs ExceptionBoundary_def)
  have "unat (Traits_GetSize (mVector v)) < 2 ^ 32"
    using unsigned_less [of "Traits_GetSize (mVector v)", where 'a = nat] by simp
  with h show "unat (of_nat k :: unsigned) = k"
    by (simp add: unat_of_nat)
next
  assume "\<forall>j < unat (Traits_GetSize (mVector v)). Equals tr (mVector v ! j) x = Inr False"
  then have "\<forall>j < unat (Traits_GetSize (mVector v)).
      j < length (mVector v) \<and> Equals tr (mVector v ! j) x = Inr False"
    using unat_GetSize_le [of "mVector v"] by auto
  then have "IndexOf_loop tr (mVector v) x 0 (Traits_GetSize (mVector v)) (0, False)
      = (None, 0, False)"
    by (rule IndexOf_loop_absent)
  then show "Vector_IndexOf tr v x (Some index) (Some found) = (S_OK, Some 0, Some False)"
    by (simp add: Vector_IndexOf_def pointer_defs ExceptionBoundary_def)
next
  assume "mVector v = []"
  then have "IndexOf_loop tr (mVector v) x 0 (Traits_GetSize (mVector v)) (0, False)
      = (None, 0, False)"
    by (intro IndexOf_loop_absent) (simp add: Traits_GetSize_def)
  then show "Vector_IndexOf tr v x (Some index) (Some found) = (S_OK, Some 0, Some False)"
    by (simp add: Vector_IndexOf_def pointer_defs ExceptionBoundary_def)
next
  assume "length (mVector v) < 2 ^ 32"
  then show "unat (Traits_GetSize (mVector v)) = length (mVector v)"
    by (rule unat_GetSize_small)
next
  show "unat (Traits_GetSize (mVector v)) = length (mVector v) mod 2 ^ 32"
    by (simp add: Traits_GetSize_def unat_of_nat)
qed

theorem IndexOf_first_match_scanned_witness:
  "Vector_IndexOf ElementTraits_value (Vector_new False [5 :: nat, 6, 7, 6]) 6 (Some 9) (Some False) =
     (S_OK, Some 1, Some True) \<and>
   Vector_IndexOf ElementTraits_value (Vector_new False [5 :: nat, 6, 7, 6]) 8 (Some 9) (Some True) =
     (S_OK, Some 0, Some False) \<and>
   Vector_IndexOf ElementTraits_value (Vector_new False ([] :: nat list)) 8 (Some 9) (Some True) =
     (S_OK, Some 0, Some False) \<and>
   unat (Traits_GetSize (mVector (Vector_new False [5 :: nat, 6, 7, 6]))) = 4"
proof -
  have a: "j < 4 \<longrightarrow> [5 :: nat, 6, 7, 6] ! j \<noteq> 8" for j
    by (cases j rule: nat.exhaust; simp add: nth_Cons split: nat.splits)
  show ?thesis
  using
    IndexOf_first_match_scanned [of 1 "Vector_new False [5 :: nat, 6, 7, 6]" ElementTraits_value
      6 9 False]
    IndexOf_first_match_scanned [of 1 "Vector_new False [5 :: nat, 6, 7, 6]" ElementTraits_value
      8 9 True]
    IndexOf_first_match_scanned [of 1 "Vector_new False ([] :: nat list)" ElementTraits_value
      8 9 True]
    a
  by (simp add: Vector_new_def ElementTraits_value_def Traits_GetSize_def)
qed

text \<open>
  Claim C1. On a vector made with the fixed-size flag, \<^verbatim>\<open>InsertAt\<close>, \<^verbatim>\<open>RemoveAt\<close>,
  \<^verbatim>\<open>Append\<close>, \<^verbatim>\<open>RemoveAtEnd\<close> and \<^verbatim>\<open>Clear\<close> return \<open>E_NOTIMPL\<close> and leave the
  vector as it was; \<^verbatim>\<open>SetAt\<close> at an index below the number of elements succeeds and
  overwrites in place; \<^verbatim>\<open>ReplaceAll\<close> with a count equal to the size succeeds and keeps
  the number of elements. After any sequence of calls the number of elements is what it was,
  and the vector is still fixed-size.
\<close>

theorem fixed_size_never_changes:
  fixes tr :: "('t, 'e) ElementTraits" and v :: "'e Vector"
  assumes "isFixedSize v"
  shows
  "Vector_InsertAt tr v index item = (E_NOTIMPL, v) \<and>
   Vector_RemoveAt v index = (E_NOTIMPL, v) \<and>
   Vector_Append tr v item = (E_NOTIMPL, v) \<and>
   Vector_RemoveAtEnd v = (E_NOTIMPL, v) \<and>
   Vector_Clear v = (E_NOTIMPL, v) \<and>
   (unat index < length (mVector v) \<longrightarrow>
      Vector_SetAt tr v index item =
        (S_OK, v\<lparr>mVector := (mVector v)[unat index := Wrap tr item], isChanged := True\<rparr>)) \<and>
   (count = Traits_GetSize (mVector v) \<longrightarrow> unat count \<le> length vals \<longrightarrow>
      fst (Vector_ReplaceAll tr v count (Some vals)) = S_OK \<and>
      length (mVector (snd (Vector_ReplaceAll tr v count (Some vals)))) = length (mVector v)) \<and>
   length (mVector (Vector_calls tr v cs)) = length (mVector v) \<and>
   isFixedSize (Vector_calls tr v cs)"
proof -
  have ok: "fst (Vector_ReplaceAll tr v count (Some vals)) = S_OK"
    if "count = Traits_GetSize (mVector v)"
    using that ReplaceAll_SetAt_loop_eq [of count "mVector v" tr 0 vals]
    by (simp add: Vector_ReplaceAll_def pointer_defs ExceptionBoundary_def unat_GetSize_le)
  have len: "length (mVector (snd (Vector_ReplaceAll tr v count (Some vals)))) =
      length (mVector v)"
    using Vector_call_fixed [OF assms, of tr "Call_ReplaceAll count (Some vals)"] by simp
  have rejected: "Vector_InsertAt tr v index item = (E_NOTIMPL, v)"
    "Vector_RemoveAt v index = (E_NOTIMPL, v)"
    "Vector_Append tr v item = (E_NOTIMPL, v)"
    "Vector_RemoveAtEnd v = (E_NOTIMPL, v)"
    "Vector_Clear v = (E_NOTIMPL, v)"
    using assms
    by (simp_all add: Vector_InsertAt_def Vector_RemoveAt_def Vector_Append_def
        Vector_RemoveAtEnd_def Vector_Clear_def boundary_defs)
  have set: "unat index < length (mVector v) \<longrightarrow>
      Vector_SetAt tr v index item =
        (S_OK, v\<lparr>mVector := (mVector v)[unat index := Wrap tr item], isChanged := True\<rparr>)"
    by (simp add: Vector_SetAt_def Traits_SetAt_def boundary_defs)
  from rejected set ok len Vector_calls_fixed [OF assms, of tr cs]
  show ?thesis by blast
qed

theorem fixed_size_never_changes_witness:
  "Vector_Clear (Vector_new True [5 :: nat, 6]) = (E_NOTIMPL, Vector_new True [5, 6]) \<and>
   Vector_SetAt ElementTraits_value (Vector_new True [5 :: nat, 6]) 1 9 =
     (S_OK, \<lparr>mVector = [5, 9], isFixedSize = True, isChanged = True\<rparr>) \<and>
   fst (Vector_ReplaceAll ElementTraits_value (Vector_new True [5 :: nat, 6]) 2 (Some [7, 8])) = S_OK \<and>
   length (mVector (Vector_calls ElementTraits_value (Vector_new True [5 :: nat, 6])
     [Call_Append 1, Call_RemoveAtEnd, Call_SetAt 0 3, Call_ReplaceAll 3 (Some [1, 2, 3]),
      Call_Clear])) = 2"
  using fixed_size_never_changes [of "Vector_new True [5 :: nat, 6]" ElementTraits_value 1 9 2
      "[7, 8]" "[Call_Append 1, Call_RemoveAtEnd, Call_SetAt 0 3, Call_ReplaceAll 3 (Some [1, 2, 3]),
      Call_Clear]"]
  by (simp add: Vector_new_def ElementTraits_value_def Traits_GetSize_def)



text \<open>
  Claim C9. The claim says that the position of an iterator never exceeds the number of
  elements of its vector, whatever is called on either. It does not hold: after two
  \<^verbatim>\<open>MoveNext\<close> on a vector of three elements the position is 2, and \<^verbatim>\<open>Clear\<close> on the
  vector then leaves no element.
\<close>

theorem cursor_invariant_broken_by_Clear:
  "\<not> unat (mPosition (snd (client_calls ElementTraits_value
          (Vector_new False [1 :: nat, 2, 3], VectorIterator_new)
          [On_Iterator_MoveNext (Some False), On_Iterator_MoveNext (Some False),
           On_Vector Call_Clear])))
      \<le> length (mVector (fst (client_calls ElementTraits_value
          (Vector_new False [1 :: nat, 2, 3], VectorIterator_new)
          [On_Iterator_MoveNext (Some False), On_Iterator_MoveNext (Some False),
           On_Vector Call_Clear])))"
  by (simp add: Vector_new_def VectorIterator_new_def VectorIterator_MoveNext_def
      InternalVector_def Traits_GetSize_def Vector_Clear_def Traits_Clear_def pointer_defs
      boundary_defs Let_def)

text \<open>
  Claim C9, amended. The position of a new iterator is within the number of elements. This
  is preserved by \<^verbatim>\<open>MoveNext\<close>, and by every call on the vector but a successful
  removal that leaves fewer elements than the position: \<^verbatim>\<open>RemoveAt\<close> or
  \<^verbatim>\<open>RemoveAtEnd\<close> when the position equals the number of elements, \<^verbatim>\<open>Clear\<close> when the
  position is not 0, and \<^verbatim>\<open>ReplaceAll\<close> to a different size that is below the position.
  Exactly these calls leave the position above the number of elements. While it is there,
  \<^verbatim>\<open>get_HasCurrent\<close> reports false and \<^verbatim>\<open>MoveNext\<close> returns \<open>E_BOUNDS\<close> and changes
  nothing.
\<close>

theorem cursor_invariant_amended:
  fixes tr :: "('t, 'e) ElementTraits" and v :: "'e Vector"
  shows
  "unat (mPosition VectorIterator_new) \<le> length (mVector v) \<and>
   (unat (mPosition it) \<le> length (mVector v) \<longrightarrow>
      unat (mPosition (snd (client_call tr (v, it) (On_Iterator_MoveNext hasCurrent))))
        \<le> length (mVector (fst (client_call tr (v, it) (On_Iterator_MoveNext hasCurrent))))) \<and>
   (unat (mPosition it) \<le> length (mVector v) \<longrightarrow>
      (unat (mPosition (snd (client_call tr (v, it) (On_Vector c))))
         \<le> length (mVector (fst (client_call tr (v, it) (On_Vector c))))) =
      (\<not> (fst (Vector_call tr v c) = S_OK \<and>
          (((\<exists>index. c = Call_RemoveAt index) \<or> c = Call_RemoveAtEnd) \<and>
             unat (mPosition it) = length (mVector v) \<or>
           c = Call_Clear \<and> mPosition it \<noteq> 0 \<or>
           (\<exists>count array. c = Call_ReplaceAll count array \<and>
              count \<noteq> Traits_GetSize (mVector v) \<and> unat count < unat (mPosition it)))))) \<and>
   (length (mVector v) < unat (mPosition it) \<longrightarrow>
      VectorIterator_get_HasCurrent v it (Some b) = (S_OK, Some False) \<and>
      VectorIterator_MoveNext v it (Some b) = (E_BOUNDS, it, Some b))"
proof -
  have "unat (mPosition it + 1) \<le> length (mVector v)"
    if "mPosition it < Traits_GetSize (mVector v)"
  proof -
    from that have "unat (mPosition it + 1) \<le> unat (Traits_GetSize (mVector v))"
      using inc_le by (simp add: word_le_nat_alt)
    then show ?thesis using unat_GetSize_le [of "mVector v"] by simp
  qed
  then have move: "unat (mPosition it) \<le> length (mVector v) \<longrightarrow>
      unat (mPosition (snd (client_call tr (v, it) (On_Iterator_MoveNext hasCurrent))))
        \<le> length (mVector (fst (client_call tr (v, it) (On_Iterator_MoveNext hasCurrent))))"
    by (auto simp add: VectorIterator_MoveNext_def InternalVector_def pointer_defs Let_def
        ExceptionBoundary_def)
  have call: "(unat (mPosition it) \<le> length (mVector (snd (Vector_call tr v c)))) =
      (\<not> (fst (Vector_call tr v c) = S_OK \<and>
          (((\<exists>index. c = Call_RemoveAt index) \<or> c = Call_RemoveAtEnd) \<and>
             unat (mPosition it) = length (mVector v) \<or>
           c = Call_Clear \<and> mPosition it \<noteq> 0 \<or>
           (\<exists>count array. c = Call_ReplaceAll count array \<and>
              count \<noteq> Traits_GetSize (mVector v) \<and> unat count < unat (mPosition it)))))"
    if inv: "unat (mPosition it) \<le> length (mVector v)"
  proof (cases c)
    case (Call_SetAt index item)
    with inv show ?thesis
      by (simp add: Vector_SetAt_def Traits_SetAt_def boundary_defs)
  next
    case (Call_InsertAt index item)
    with inv show ?thesis
      by (simp add: Vector_InsertAt_def Traits_InsertAt_def boundary_defs)
  next
    case (Call_RemoveAt index)
    with inv show ?thesis
      by (auto simp add: Vector_RemoveAt_def Traits_RemoveAt_def boundary_defs hr_defs)
  next
    case (Call_Append item)
    with inv show ?thesis
      by (simp add: Vector_Append_def Traits_Append_def boundary_defs)
  next
    case Call_RemoveAtEnd
    with inv show ?thesis
      by (auto simp add: Vector_RemoveAtEnd_def Traits_RemoveAt_def boundary_defs hr_defs)
  next
    case Call_Clear
    with inv show ?thesis
      by (auto simp add: Vector_Clear_def Traits_Clear_def boundary_defs hr_defs unat_eq_0)
  next
    case (Call_ReplaceAll count array)
    show ?thesis
    proof (cases "array = None \<or> count = Traits_GetSize (mVector v) \<or> isFixedSize v")
      case True
      have "length (mVector (snd (Vector_ReplaceAll tr v count array))) = length (mVector v)"
        using True ReplaceAll_SetAt_loop_length [of tr "mVector v" 0 count "the array"]
        by (auto simp add: Vector_ReplaceAll_def pointer_defs boundary_defs
            split: prod.splits option.splits)
      with inv True show ?thesis
        using ReplaceAll_status [of tr v count array]
        by (auto simp add: Call_ReplaceAll hr_defs)
    next
      case False
      then obtain vals where some: "array = Some vals" by auto
      with False have "Vector_ReplaceAll tr v count array =
          (S_OK, v\<lparr>mVector := map (\<lambda>k. Wrap tr (vals ! k)) [0..<unat count],
                    isChanged := True\<rparr>)"
        by (simp add: Vector_ReplaceAll_def pointer_defs boundary_defs
            ReplaceAll_Append_loop_eq Traits_Clear_def)
      with False show ?thesis
        by (auto simp add: Call_ReplaceAll)
    qed
  qed
  have past: "VectorIterator_get_HasCurrent v it (Some b) = (S_OK, Some False) \<and>
      VectorIterator_MoveNext v it (Some b) = (E_BOUNDS, it, Some b)"
    if "length (mVector v) < unat (mPosition it)"
  proof -
    from that have "unat (Traits_GetSize (mVector v)) \<le> unat (mPosition it)"
      using unat_GetSize_le [of "mVector v"] by simp
    then have "Traits_GetSize (mVector v) \<le> mPosition it"
      by (simp add: word_le_nat_alt)
    then show ?thesis
      by (simp add: VectorIterator_get_HasCurrent_def VectorIterator_MoveNext_def
          InternalVector_def pointer_defs Let_def boundary_defs)
  qed
  show ?thesis
    using move call past by (simp add: VectorIterator_new_def)
qed

theorem cursor_invariant_amended_witness:
  "unat (mPosition (snd (client_call ElementTraits_value
       (Vector_new False [1 :: nat, 2, 3], \<lparr>mPosition = 2\<rparr>) (On_Iterator_MoveNext (Some False)))))
     \<le> length (mVector (fst (client_call ElementTraits_value
       (Vector_new False [1 :: nat, 2, 3], \<lparr>mPosition = 2\<rparr>) (On_Iterator_MoveNext (Some False))))) \<and>
   unat (mPosition (snd (client_call ElementTraits_value
       (Vector_new False [1 :: nat, 2, 3], \<lparr>mPosition = 1\<rparr>) (On_Vector (Call_RemoveAt 0)))))
     \<le> length (mVector (fst (client_call ElementTraits_value
       (Vector_new False [1 :: nat, 2, 3], \<lparr>mPosition = 1\<rparr>) (On_Vector (Call_RemoveAt 0))))) \<and>
   \<not> unat (mPosition (snd (client_call ElementTraits_value
       (Vector_new False [1 :: nat, 2, 3], \<lparr>mPosition = 3\<rparr>) (On_Vector (Call_RemoveAt 0)))))
     \<le> length (mVector (fst (client_call ElementTraits_value
       (Vector_new False [1 :: nat, 2, 3], \<lparr>mPosition = 3\<rparr>) (On_Vector (Call_RemoveAt 0))))) \<and>
   VectorIterator_get_HasCurrent (Vector_new False [1 :: nat, 2]) \<lparr>mPosition = 3\<rparr> (Some True) =
     (S_OK, Some False) \<and>
   VectorIterator_MoveNext (Vector_new False [1 :: nat, 2]) \<lparr>mPosition = 3\<rparr> (Some True) =
     (E_BOUNDS, \<lparr>mPosition = 3\<rparr>, Some True)"
proof -
  have ok: "fst (Vector_RemoveAt (Vector_new False [1 :: nat, 2, 3]) 0) = S_OK"
    by (simp add: Vector_RemoveAt_def Traits_RemoveAt_def Vector_new_def boundary_defs)
  show ?thesis
    using ok
      cursor_invariant_amended [where v = "Vector_new False [1 :: nat, 2, 3]"
        and it = "\<lparr>mPosition = 2\<rparr>" and tr = ElementTraits_value
        and hasCurrent = "Some False" and c = "Call_RemoveAt 0" and b = True]
      cursor_invariant_amended [where v = "Vector_new False [1 :: nat, 2, 3]"
        and it = "\<lparr>mPosition = 1\<rparr>" and tr = ElementTraits_value
        and hasCurrent = "Some False" and c = "Call_RemoveAt 0" and b = True]
      cursor_invariant_amended [where v = "Vector_new False [1 :: nat, 2, 3]"
        and it = "\<lparr>mPosition = 3\<rparr>" and tr = ElementTraits_value
        and hasCurrent = "Some False" and c = "Call_RemoveAt 0" and b = True]
      cursor_invariant_amended [where v = "Vector_new False [1 :: nat, 2]"
        and it = "\<lparr>mPosition = 3\<rparr>" and tr = ElementTraits_value
        and hasCurrent = "Some False" and c = "Call_RemoveAt 0" and b = True]
    by (simp add: Vector_new_def)
qed

end
